theory Spec2Isabelle
  imports Complex_Main
begin

section \<open>Numbers\<close>

text \<open>
  The program computes with Go's \<^verbatim>\<open>float64\<close>. This development takes the finite values
  of that type to be the real numbers and its sums, differences and products to be exact:
  rounding, overflow and underflow are outside the model. A quotient is the one
  operation that leaves the finite values on finite operands (a float division by zero
  does not panic in Go, it yields an infinity or a NaN), so every field that the source
  assigns from a quotient whose divisor can be zero, or from such a field, has the type
  \<open>float64\<close> below, and every other field is a \<open>real\<close>. The sign of an infinity depends
  on the sign of the zero divisor, which the reals do not have, so one value \<open>Infty\<close>
  stands for both infinities.
\<close>

datatype float64 = Fin real | Infty | NaN

text \<open>\<^verbatim>\<open>x / y\<close> on two finite operands.\<close>

definition fdiv :: "real \<Rightarrow> real \<Rightarrow> float64" where
  "fdiv x y = (if y \<noteq> 0 then Fin (x / y) else if x = 0 then NaN else Infty)"

text \<open>\<^verbatim>\<open>q * c\<close> where \<open>c\<close> is finite.\<close>

fun fmul :: "float64 \<Rightarrow> real \<Rightarrow> float64" where
  "fmul (Fin x) c = Fin (x * c)"
| "fmul Infty c = (if c = 0 then NaN else Infty)"
| "fmul NaN c = NaN"

text \<open>
  \<^verbatim>\<open>int(x)\<close> on a float: the fraction is discarded (truncation toward zero), and the
  result is a 64-bit \<^verbatim>\<open>int\<close>. For a value whose integer part is outside the range of
  \<^verbatim>\<open>int\<close> the Go specification leaves the result to the implementation; the model has
  the result of the gc compiler on amd64, the smallest \<^verbatim>\<open>int\<close>.
\<close>

definition go_int :: "real \<Rightarrow> int" where
  "go_int x =
     (let t = (if 0 \<le> x then \<lfloor>x\<rfloor> else \<lceil>x\<rceil>)
      in if - (2 ^ 63) \<le> t \<and> t < 2 ^ 63 then t else - (2 ^ 63))"

section \<open>The COCOMO II model (package domain)\<close>

record COCOMOModel =
  Model_ID :: string
  Model_Name :: string
  Model_Description :: string
  Model_A :: real
  Model_B :: real

type_synonym ScaleFactorType = string

record ScaleFactor =
  SF_ID :: string
  SF_Type :: ScaleFactorType
  SF_Name :: string
  SF_Description :: string
  SF_Rating :: real
  SF_Weight :: real

type_synonym CostDriverType = string

record CostDriver =
  CD_ID :: string
  CD_Type :: CostDriverType
  CD_Name :: string
  CD_Description :: string
  CD_Rating :: real
  CD_Value :: real

text \<open>
  \<open>Model\<close> is a pointer in the source, dereferenced without a check by every method;
  the record holds the model it points to.
\<close>

record COCOMOEstimate =
  CE_ID :: string
  ProjectSize :: real
  Model :: COCOMOModel
  ScaleFactors :: "ScaleFactor list"
  CostDrivers :: "CostDriver list"
  ExponentB :: real
  EffortPM :: real
  DurationTM :: real
  TeamSize :: float64

subsection \<open>pow\<close>

text \<open>
  \<^verbatim>\<open>result := 1.0; for i := 0; i < int(exp); i++ { result *= base }\<close>: the loop, with
  its counter \<open>i\<close>, its bound \<open>n = int(exp)\<close> and its accumulator.
\<close>

function pow_loop :: "real \<Rightarrow> int \<Rightarrow> int \<Rightarrow> real \<Rightarrow> real" where
  "pow_loop base n i result =
     (if i < n then pow_loop base n (i + 1) (result * base) else result)"
  by pat_completeness auto
termination
  by (relation "measure (\<lambda>(base, n, i, result). nat (n - i))") auto

declare pow_loop.simps [simp del]

definition pow :: "real \<Rightarrow> real \<Rightarrow> real" where
  "pow base expo = pow_loop base (go_int expo) 0 1.0"

subsection \<open>CalculateEffort\<close>

text \<open>The two accumulating loops over the scale factors and the cost drivers.\<close>

fun sumScaleFactors :: "real \<Rightarrow> ScaleFactor list \<Rightarrow> real" where
  "sumScaleFactors b [] = b"
| "sumScaleFactors b (sf # sfs) = sumScaleFactors (b + SF_Weight sf * SF_Rating sf) sfs"

fun effortMultiplier :: "real \<Rightarrow> CostDriver list \<Rightarrow> real" where
  "effortMultiplier em [] = em"
| "effortMultiplier em (cd # cds) = effortMultiplier (em * CD_Value cd) cds"

definition CalculateEffort :: "COCOMOEstimate \<Rightarrow> COCOMOEstimate" where
  "CalculateEffort e =
     (let exponentB = sumScaleFactors (Model_B (Model e)) (ScaleFactors e);
          em = effortMultiplier 1.0 (CostDrivers e);
          effortPM = Model_A (Model e) * pow (ProjectSize e) exponentB * em;
          c = 3.67;
          d = 0.28 + 0.2 * (exponentB - 1.01);
          durationTM = c * pow effortPM d
      in e\<lparr>ExponentB := exponentB, EffortPM := effortPM, DurationTM := durationTM,
            TeamSize := fdiv effortPM durationTM\<rparr>)"

subsection \<open>The detailed result\<close>

text \<open>
  The anonymous struct types of \<^verbatim>\<open>COCOMODetailedResult\<close> are records of their own.
  \<open>NominalRange\<close> is the shape shared by \<^verbatim>\<open>EffortRange\<close> and \<^verbatim>\<open>DurationRange\<close>.
\<close>

record NominalRange =
  Optimistic :: real
  Nominal :: real
  Pessimistic :: real

record TeamSizeRange =
  TS_Minimum :: float64
  TS_Average :: float64
  TS_Maximum :: float64

record CostRange =
  Cost_Minimum :: real
  Cost_Nominal :: real
  Cost_Maximum :: real

record CostEstimate =
  HourlyRate :: real
  TotalCost :: real
  CostRange :: CostRange

record PhaseEffort =
  Phase :: string
  PercentEffort :: real
  Phase_Effort :: real
  Phase_Duration :: real
  AverageStaff :: float64

record FactorAnalysis =
  FA_Name :: string
  FA_Rating :: real
  FA_Impact :: real
  Sensitivity :: float64
  Recommendation :: string

record RiskFactor =
  RF_Category :: string
  RF_Name :: string
  RF_Level :: string
  RF_Impact :: real
  RF_Description :: string
  Mitigation :: string

record COCOMODetailedResult =
  DR_ProjectSize :: real
  ModelType :: string
  BaseEffort :: real
  AdjustedEffort :: real
  EffortRange :: NominalRange
  Duration :: real
  DurationRange :: NominalRange
  DR_TeamSize :: float64
  DR_TeamSizeRange :: TeamSizeRange
  DR_CostEstimate :: CostEstimate
  PhaseDistribution :: "PhaseEffort list"
  ScaleFactorAnalysis :: "FactorAnalysis list"
  CostDriverAnalysis :: "FactorAnalysis list"
  RiskLevel :: string
  RiskFactors :: "RiskFactor list"

text \<open>
  The string literals of the source that are not ASCII, as the UTF-8 bytes a Go string
  holds.
\<close>

definition phase_requirements :: string where
  "phase_requirements =
    [CHR 0xE8, CHR 0xA6, CHR 0x81, CHR 0xE4, CHR 0xBB, CHR 0xB6, CHR 0xE5, CHR 0xAE, CHR 0x9A,
     CHR 0xE7, CHR 0xBE, CHR 0xA9, CHR 0xE3, CHR 0x83, CHR 0xBB, CHR 0xE8, CHR 0xA8, CHR 0x88,
     CHR 0xE7, CHR 0x94, CHR 0xBB]"

definition phase_system_design :: string where
  "phase_system_design =
    [CHR 0xE3, CHR 0x82, CHR 0xB7, CHR 0xE3, CHR 0x82, CHR 0xB9, CHR 0xE3, CHR 0x83, CHR 0x86,
     CHR 0xE3, CHR 0x83, CHR 0xA0, CHR 0xE8, CHR 0xA8, CHR 0xAD, CHR 0xE8, CHR 0xA8, CHR 0x88]"

definition phase_detailed_design :: string where
  "phase_detailed_design =
    [CHR 0xE8, CHR 0xA9, CHR 0xB3, CHR 0xE7, CHR 0xB4, CHR 0xB0, CHR 0xE8, CHR 0xA8, CHR 0xAD,
     CHR 0xE8, CHR 0xA8, CHR 0x88]"

definition phase_implementation :: string where
  "phase_implementation =
    [CHR 0xE5, CHR 0xAE, CHR 0x9F, CHR 0xE8, CHR 0xA3, CHR 0x85, CHR 0xE3, CHR 0x83, CHR 0xBB,
     CHR 0xE5, CHR 0x8D, CHR 0x98, CHR 0xE4, CHR 0xBD, CHR 0x93, CHR 0xE3, CHR 0x83, CHR 0x86,
     CHR 0xE3, CHR 0x82, CHR 0xB9, CHR 0xE3, CHR 0x83, CHR 0x88]"

definition phase_integration_test :: string where
  "phase_integration_test =
    [CHR 0xE7, CHR 0xB5, CHR 0x90, CHR 0xE5, CHR 0x90, CHR 0x88, CHR 0xE3, CHR 0x83, CHR 0x86,
     CHR 0xE3, CHR 0x82, CHR 0xB9, CHR 0xE3, CHR 0x83, CHR 0x88]"

definition phase_system_test :: string where
  "phase_system_test =
    [CHR 0xE3, CHR 0x82, CHR 0xB7, CHR 0xE3, CHR 0x82, CHR 0xB9, CHR 0xE3, CHR 0x83, CHR 0x86,
     CHR 0xE3, CHR 0x83, CHR 0xA0, CHR 0xE3, CHR 0x83, CHR 0x86, CHR 0xE3, CHR 0x82, CHR 0xB9,
     CHR 0xE3, CHR 0x83, CHR 0x88]"

definition recommend_scale_factor :: string where
  "recommend_scale_factor =
    [CHR 0xE3, CHR 0x81, CHR 0x93, CHR 0xE3, CHR 0x81, CHR 0xAE, CHR 0xE8, CHR 0xA6, CHR 0x81,
     CHR 0xE5, CHR 0x9B, CHR 0xA0, CHR 0xE3, CHR 0x81, CHR 0xAE, CHR 0xE6, CHR 0x94, CHR 0xB9,
     CHR 0xE5, CHR 0x96, CHR 0x84, CHR 0xE3, CHR 0x81, CHR 0xAB, CHR 0xE3, CHR 0x82, CHR 0x88,
     CHR 0xE3, CHR 0x82, CHR 0x8A, CHR 0xE5, CHR 0xB7, CHR 0xA5, CHR 0xE6, CHR 0x95, CHR 0xB0,
     CHR 0xE3, CHR 0x82, CHR 0x92, CHR 0xE5, CHR 0x89, CHR 0x8A, CHR 0xE6, CHR 0xB8, CHR 0x9B,
     CHR 0xE3, CHR 0x81, CHR 0xA7, CHR 0xE3, CHR 0x81, CHR 0x8D, CHR 0xE3, CHR 0x82, CHR 0x8B,
     CHR 0xE5, CHR 0x8F, CHR 0xAF, CHR 0xE8, CHR 0x83, CHR 0xBD, CHR 0xE6, CHR 0x80, CHR 0xA7,
     CHR 0xE3, CHR 0x81, CHR 0x8C, CHR 0xE3, CHR 0x81, CHR 0x82, CHR 0xE3, CHR 0x82, CHR 0x8A,
     CHR 0xE3, CHR 0x81, CHR 0xBE, CHR 0xE3, CHR 0x81, CHR 0x99]"

definition recommend_cost_driver :: string where
  "recommend_cost_driver =
    [CHR 0xE3, CHR 0x81, CHR 0x93, CHR 0xE3, CHR 0x81, CHR 0xAE, CHR 0xE8, CHR 0xA6, CHR 0x81,
     CHR 0xE5, CHR 0x9B, CHR 0xA0, CHR 0xE3, CHR 0x81, CHR 0xAE, CHR 0xE6, CHR 0x9C, CHR 0x80,
     CHR 0xE9, CHR 0x81, CHR 0xA9, CHR 0xE5, CHR 0x8C, CHR 0x96, CHR 0xE3, CHR 0x81, CHR 0xAB,
     CHR 0xE3, CHR 0x82, CHR 0x88, CHR 0xE3, CHR 0x82, CHR 0x8A, CHR 0xE5, CHR 0xB7, CHR 0xA5,
     CHR 0xE6, CHR 0x95, CHR 0xB0, CHR 0xE3, CHR 0x82, CHR 0x92, CHR 0xE5, CHR 0x89, CHR 0x8A,
     CHR 0xE6, CHR 0xB8, CHR 0x9B, CHR 0xE3, CHR 0x81, CHR 0xA7, CHR 0xE3, CHR 0x81, CHR 0x8D,
     CHR 0xE3, CHR 0x82, CHR 0x8B, CHR 0xE5, CHR 0x8F, CHR 0xAF, CHR 0xE8, CHR 0x83, CHR 0xBD,
     CHR 0xE6, CHR 0x80, CHR 0xA7, CHR 0xE3, CHR 0x81, CHR 0x8C, CHR 0xE3, CHR 0x81, CHR 0x82,
     CHR 0xE3, CHR 0x82, CHR 0x8A, CHR 0xE3, CHR 0x81, CHR 0xBE, CHR 0xE3, CHR 0x81, CHR 0x99]"

definition risk_desc_scale_factor :: string where
  "risk_desc_scale_factor =
    [CHR 0xE9, CHR 0xAB, CHR 0x98, CHR 0xE3, CHR 0x81, CHR 0x84, CHR 0xE3, CHR 0x82, CHR 0xB9,
     CHR 0xE3, CHR 0x82, CHR 0xB1, CHR 0xE3, CHR 0x83, CHR 0xBC, CHR 0xE3, CHR 0x83, CHR 0xAB,
     CHR 0xE3, CHR 0x83, CHR 0x95, CHR 0xE3, CHR 0x82, CHR 0xA1, CHR 0xE3, CHR 0x82, CHR 0xAF,
     CHR 0xE3, CHR 0x82, CHR 0xBF, CHR 0xE3, CHR 0x83, CHR 0xBC, CHR 0xE5, CHR 0x80, CHR 0xA4,
     CHR 0xE3, CHR 0x81, CHR 0xAB, CHR 0xE3, CHR 0x82, CHR 0x88, CHR 0xE3, CHR 0x82, CHR 0x8B,
     CHR 0xE5, CHR 0xBD, CHR 0xB1, CHR 0xE9, CHR 0x9F, CHR 0xBF]"

definition risk_mitigation_process :: string where
  "risk_mitigation_process =
    [CHR 0xE3, CHR 0x83, CHR 0x97, CHR 0xE3, CHR 0x83, CHR 0xAD, CHR 0xE3, CHR 0x82, CHR 0xBB,
     CHR 0xE3, CHR 0x82, CHR 0xB9, CHR 0xE3, CHR 0x81, CHR 0xAE, CHR 0xE6, CHR 0x94, CHR 0xB9,
     CHR 0xE5, CHR 0x96, CHR 0x84, CHR 0xE3, CHR 0x81, CHR 0xA8, CHR 0xE3, CHR 0x83, CHR 0xAA,
     CHR 0xE3, CHR 0x82, CHR 0xB9, CHR 0xE3, CHR 0x82, CHR 0xAF, CHR 0xE8, CHR 0xBB, CHR 0xBD,
     CHR 0xE6, CHR 0xB8, CHR 0x9B, CHR 0xE7, CHR 0xAD, CHR 0x96, CHR 0xE3, CHR 0x81, CHR 0xAE,
     CHR 0xE5, CHR 0xAE, CHR 0x9F, CHR 0xE6, CHR 0x96, CHR 0xBD, CHR 0xE3, CHR 0x82, CHR 0x92,
     CHR 0xE6, CHR 0xA4, CHR 0x9C, CHR 0xE8, CHR 0xA8, CHR 0x8E]"

definition risk_desc_cost_driver :: string where
  "risk_desc_cost_driver =
    [CHR 0xE9, CHR 0xAB, CHR 0x98, CHR 0xE3, CHR 0x81, CHR 0x84, CHR 0xE3, CHR 0x82, CHR 0xB3,
     CHR 0xE3, CHR 0x82, CHR 0xB9, CHR 0xE3, CHR 0x83, CHR 0x88, CHR 0xE3, CHR 0x83, CHR 0x89,
     CHR 0xE3, CHR 0x83, CHR 0xA9, CHR 0xE3, CHR 0x82, CHR 0xA4, CHR 0xE3, CHR 0x83, CHR 0x90,
     CHR 0xE3, CHR 0x83, CHR 0xBC, CHR 0xE5, CHR 0x80, CHR 0xA4, CHR 0xE3, CHR 0x81, CHR 0xAB,
     CHR 0xE3, CHR 0x82, CHR 0x88, CHR 0xE3, CHR 0x82, CHR 0x8B, CHR 0xE5, CHR 0xBD, CHR 0xB1,
     CHR 0xE9, CHR 0x9F, CHR 0xBF]"

definition risk_mitigation_technical :: string where
  "risk_mitigation_technical =
    [CHR 0xE6, CHR 0x8A, CHR 0x80, CHR 0xE8, CHR 0xA1, CHR 0x93, CHR 0xE7, CHR 0x9A, CHR 0x84,
     CHR 0xE3, CHR 0x81, CHR 0xAA, CHR 0xE5, CHR 0xAF, CHR 0xBE, CHR 0xE7, CHR 0xAD, CHR 0x96,
     CHR 0xE3, CHR 0x81, CHR 0xA8, CHR 0xE6, CHR 0x94, CHR 0xB9, CHR 0xE5, CHR 0x96, CHR 0x84,
     CHR 0xE7, CHR 0xAD, CHR 0x96, CHR 0xE3, CHR 0x81, CHR 0xAE, CHR 0xE5, CHR 0xAE, CHR 0x9F,
     CHR 0xE6, CHR 0x96, CHR 0xBD, CHR 0xE3, CHR 0x82, CHR 0x92, CHR 0xE6, CHR 0xA4, CHR 0x9C,
     CHR 0xE8, CHR 0xA8, CHR 0x8E]"

definition risk_name_large_project :: string where
  "risk_name_large_project =
    [CHR 0xE5, CHR 0xA4, CHR 0xA7, CHR 0xE8, CHR 0xA6, CHR 0x8F, CHR 0xE6, CHR 0xA8, CHR 0xA1,
     CHR 0xE3, CHR 0x83, CHR 0x97, CHR 0xE3, CHR 0x83, CHR 0xAD, CHR 0xE3, CHR 0x82, CHR 0xB8,
     CHR 0xE3, CHR 0x82, CHR 0xA7, CHR 0xE3, CHR 0x82, CHR 0xAF, CHR 0xE3, CHR 0x83, CHR 0x88]"

definition risk_desc_large_project :: string where
  "risk_desc_large_project =
    [CHR 0xE3, CHR 0x83, CHR 0x97, CHR 0xE3, CHR 0x83, CHR 0xAD, CHR 0xE3, CHR 0x82, CHR 0xB8,
     CHR 0xE3, CHR 0x82, CHR 0xA7, CHR 0xE3, CHR 0x82, CHR 0xAF, CHR 0xE3, CHR 0x83, CHR 0x88,
     CHR 0xE8, CHR 0xA6, CHR 0x8F, CHR 0xE6, CHR 0xA8, CHR 0xA1, CHR 0xE3, CHR 0x81, CHR 0x8C,
     CHR 0xE5, CHR 0xA4, CHR 0xA7, CHR 0xE3, CHR 0x81, CHR 0x8D, CHR 0xE3, CHR 0x81, CHR 0x84,
     CHR 0xE3, CHR 0x81, CHR 0x93, CHR 0xE3, CHR 0x81, CHR 0xA8, CHR 0xE3, CHR 0x81, CHR 0xAB,
     CHR 0xE3, CHR 0x82, CHR 0x88, CHR 0xE3, CHR 0x82, CHR 0x8B, CHR 0xE8, CHR 0xA4, CHR 0x87,
     CHR 0xE9, CHR 0x9B, CHR 0x91, CHR 0xE6, CHR 0x80, CHR 0xA7, CHR 0xE3, CHR 0x81, CHR 0xAE,
     CHR 0xE5, CHR 0xA2, CHR 0x97, CHR 0xE5, CHR 0x8A, CHR 0xA0]"

definition risk_mitigation_large_project :: string where
  "risk_mitigation_large_project =
    [CHR 0xE3, CHR 0x83, CHR 0xA2, CHR 0xE3, CHR 0x82, CHR 0xB8, CHR 0xE3, CHR 0x83, CHR 0xA5,
     CHR 0xE3, CHR 0x83, CHR 0xBC, CHR 0xE3, CHR 0x83, CHR 0xAB, CHR 0xE5, CHR 0x8C, CHR 0x96,
     CHR 0xE3, CHR 0x81, CHR 0xA8, CHR 0xE3, CHR 0x82, CHR 0xA4, CHR 0xE3, CHR 0x83, CHR 0xB3,
     CHR 0xE3, CHR 0x82, CHR 0xAF, CHR 0xE3, CHR 0x83, CHR 0xAA, CHR 0xE3, CHR 0x83, CHR 0xA1,
     CHR 0xE3, CHR 0x83, CHR 0xB3, CHR 0xE3, CHR 0x82, CHR 0xBF, CHR 0xE3, CHR 0x83, CHR 0xAB,
     CHR 0xE9, CHR 0x96, CHR 0x8B, CHR 0xE7, CHR 0x99, CHR 0xBA, CHR 0xE3, CHR 0x81, CHR 0xAE,
     CHR 0xE6, CHR 0x8E, CHR 0xA1, CHR 0xE7, CHR 0x94, CHR 0xA8, CHR 0xE3, CHR 0x82, CHR 0x92,
     CHR 0xE6, CHR 0xA4, CHR 0x9C, CHR 0xE8, CHR 0xA8, CHR 0x8E]"

text \<open>\<^verbatim>\<open>assessRiskLevel\<close>: the two counting loops, then the classification.\<close>

fun countHighScaleFactors :: "int \<Rightarrow> ScaleFactor list \<Rightarrow> int" where
  "countHighScaleFactors highRiskCount [] = highRiskCount"
| "countHighScaleFactors highRiskCount (sf # sfs) =
     countHighScaleFactors (if SF_Rating sf > 4.0 then highRiskCount + 1 else highRiskCount) sfs"

fun countHighCostDrivers :: "int \<Rightarrow> CostDriver list \<Rightarrow> int" where
  "countHighCostDrivers highRiskCount [] = highRiskCount"
| "countHighCostDrivers highRiskCount (cd # cds) =
     countHighCostDrivers (if CD_Value cd > 1.3 then highRiskCount + 1 else highRiskCount) cds"

definition assessRiskLevel :: "COCOMOEstimate \<Rightarrow> string" where
  "assessRiskLevel e =
     (let highRiskCount = countHighCostDrivers (countHighScaleFactors 0 (ScaleFactors e)) (CostDrivers e)
      in if highRiskCount \<ge> 3 then ''High''
         else if highRiskCount \<ge> 1 then ''Medium''
         else ''Low'')"

text \<open>\<^verbatim>\<open>identifyRiskFactors\<close>: the two appending loops, then the size-related risk.\<close>

definition scaleFactorRisk :: "ScaleFactor \<Rightarrow> RiskFactor" where
  "scaleFactorRisk sf =
     \<lparr>RF_Category = ''Process'', RF_Name = SF_Name sf, RF_Level = ''High'',
      RF_Impact = SF_Weight sf * SF_Rating sf,
      RF_Description = risk_desc_scale_factor, Mitigation = risk_mitigation_process\<rparr>"

definition costDriverRisk :: "CostDriver \<Rightarrow> RiskFactor" where
  "costDriverRisk cd =
     \<lparr>RF_Category = ''Technical'', RF_Name = CD_Name cd, RF_Level = ''High'',
      RF_Impact = CD_Value cd,
      RF_Description = risk_desc_cost_driver, Mitigation = risk_mitigation_technical\<rparr>"

definition largeProjectRisk :: RiskFactor where
  "largeProjectRisk =
     \<lparr>RF_Category = ''Technical'', RF_Name = risk_name_large_project, RF_Level = ''Medium'',
      RF_Impact = 1.3,
      RF_Description = risk_desc_large_project, Mitigation = risk_mitigation_large_project\<rparr>"

fun scaleFactorRisks :: "RiskFactor list \<Rightarrow> ScaleFactor list \<Rightarrow> RiskFactor list" where
  "scaleFactorRisks risks [] = risks"
| "scaleFactorRisks risks (sf # sfs) =
     scaleFactorRisks (if SF_Rating sf > 4.0 then risks @ [scaleFactorRisk sf] else risks) sfs"

fun costDriverRisks :: "RiskFactor list \<Rightarrow> CostDriver list \<Rightarrow> RiskFactor list" where
  "costDriverRisks risks [] = risks"
| "costDriverRisks risks (cd # cds) =
     costDriverRisks (if CD_Value cd > 1.3 then risks @ [costDriverRisk cd] else risks) cds"

definition identifyRiskFactors :: "COCOMOEstimate \<Rightarrow> RiskFactor list" where
  "identifyRiskFactors e =
     (let risks = costDriverRisks (scaleFactorRisks [] (ScaleFactors e)) (CostDrivers e)
      in if ProjectSize e > 100 then risks @ [largeProjectRisk] else risks)"

text \<open>\<^verbatim>\<open>GenerateDetailedResult\<close>: the phase table and the two analysis loops first.\<close>

definition phaseEffort :: "COCOMOEstimate \<Rightarrow> string \<Rightarrow> real \<Rightarrow> real \<Rightarrow> PhaseEffort" where
  "phaseEffort e name pe pd =
     \<lparr>Phase = name, PercentEffort = pe, Phase_Effort = EffortPM e * pe,
      Phase_Duration = DurationTM e * pd,
      AverageStaff = fdiv (EffortPM e * pe) (DurationTM e * pd)\<rparr>"

definition phaseDistribution :: "COCOMOEstimate \<Rightarrow> PhaseEffort list" where
  "phaseDistribution e =
     [phaseEffort e phase_requirements 0.08 0.15,
      phaseEffort e phase_system_design 0.18 0.25,
      phaseEffort e phase_detailed_design 0.25 0.35,
      phaseEffort e phase_implementation 0.26 0.45,
      phaseEffort e phase_integration_test 0.15 0.25,
      phaseEffort e phase_system_test 0.08 0.15]"

fun analyzeScaleFactors ::
  "real \<Rightarrow> FactorAnalysis list \<Rightarrow> ScaleFactor list \<Rightarrow> FactorAnalysis list" where
  "analyzeScaleFactors effortPM acc [] = acc"
| "analyzeScaleFactors effortPM acc (sf # sfs) =
     analyzeScaleFactors effortPM
       (acc @ [\<lparr>FA_Name = SF_Name sf, FA_Rating = SF_Rating sf,
                FA_Impact = SF_Weight sf * SF_Rating sf,
                Sensitivity = fdiv (SF_Weight sf * 0.5) effortPM,
                Recommendation = (if SF_Rating sf > 3.5 then recommend_scale_factor else [])\<rparr>])
       sfs"

fun analyzeCostDrivers :: "FactorAnalysis list \<Rightarrow> CostDriver list \<Rightarrow> FactorAnalysis list" where
  "analyzeCostDrivers acc [] = acc"
| "analyzeCostDrivers acc (cd # cds) =
     analyzeCostDrivers
       (acc @ [(let baseValue = CD_Value cd; increasedValue = baseValue * 1.1
                in \<lparr>FA_Name = CD_Name cd, FA_Rating = CD_Rating cd, FA_Impact = CD_Value cd,
                    Sensitivity = fdiv (increasedValue - baseValue) baseValue,
                    Recommendation = (if CD_Value cd > 1.2 then recommend_cost_driver else [])\<rparr>)])
       cds"

text \<open>The cost estimate: the zero value unless an hourly rate is given.\<close>

definition costEstimate :: "COCOMOEstimate \<Rightarrow> real \<Rightarrow> CostEstimate" where
  "costEstimate e hourlyRate =
     (if hourlyRate > 0 then
        (let monthlyHours = 160.0; totalCost = EffortPM e * monthlyHours * hourlyRate
         in \<lparr>HourlyRate = hourlyRate, TotalCost = totalCost,
             CostRange = \<lparr>Cost_Minimum = totalCost * 0.8, Cost_Nominal = totalCost,
                          Cost_Maximum = totalCost * 1.2\<rparr>\<rparr>)
      else \<lparr>HourlyRate = 0, TotalCost = 0,
            CostRange = \<lparr>Cost_Minimum = 0, Cost_Nominal = 0, Cost_Maximum = 0\<rparr>\<rparr>)"

definition GenerateDetailedResult :: "COCOMOEstimate \<Rightarrow> real \<Rightarrow> COCOMODetailedResult" where
  "GenerateDetailedResult e hourlyRate =
     \<lparr>DR_ProjectSize = ProjectSize e,
      ModelType = Model_Name (Model e),
      BaseEffort = Model_A (Model e) * pow (ProjectSize e) (Model_B (Model e)),
      AdjustedEffort = EffortPM e,
      EffortRange = \<lparr>Optimistic = EffortPM e * 0.8, Nominal = EffortPM e,
                     Pessimistic = EffortPM e * 1.2\<rparr>,
      Duration = DurationTM e,
      DurationRange = \<lparr>Optimistic = DurationTM e * 0.85, Nominal = DurationTM e,
                       Pessimistic = DurationTM e * 1.15\<rparr>,
      DR_TeamSize = TeamSize e,
      DR_TeamSizeRange = \<lparr>TS_Minimum = fmul (TeamSize e) 0.7, TS_Average = TeamSize e,
                          TS_Maximum = fmul (TeamSize e) 1.3\<rparr>,
      DR_CostEstimate = costEstimate e hourlyRate,
      PhaseDistribution = phaseDistribution e,
      ScaleFactorAnalysis = analyzeScaleFactors (EffortPM e) [] (ScaleFactors e),
      CostDriverAnalysis = analyzeCostDrivers [] (CostDrivers e),
      RiskLevel = assessRiskLevel e,
      RiskFactors = identifyRiskFactors e\<rparr>"

section \<open>Factors, processes and tasks (package domain)\<close>

record Factor =
  F_ID :: string
  F_Type :: string
  F_Name :: string
  F_Description :: string
  Impact :: real

definition Apply :: "Factor \<Rightarrow> real \<Rightarrow> real" where
  "Apply f hours = hours * Impact f"

record Activity =
  Act_ID :: string
  Act_Name :: string
  Act_Description :: string
  BaseHours :: real
  Deliverables :: "string list"

record Process =
  Proc_ID :: string
  Category :: string
  Proc_Name :: string
  Proc_Description :: string
  Activities :: "Activity list"
  Order :: int

text \<open>
  The time stamps of a task and of an estimate are read by no function below and are left
  out. \<open>Complexity\<close> is a Go \<^verbatim>\<open>int\<close>, and its conversion to \<^verbatim>\<open>float64\<close> is taken to be
  exact.
\<close>

record Task =
  Task_ID :: string
  ProcessID :: string
  ActivityID :: string
  Task_Name :: string
  Task_Description :: string
  Complexity :: int
  Scale :: real
  Dependencies :: "string list"
  CustomFactors :: "Factor list"

definition CalculateBaseHours :: "Task \<Rightarrow> Activity \<Rightarrow> real" where
  "CalculateBaseHours t activity =
     (let baseHours = BaseHours activity * Scale t;
          complexityMultiplier = 0.8 + (real_of_int (Complexity t) * 0.2)
      in baseHours * complexityMultiplier)"

section \<open>The project estimate (package domain, estimate.go)\<close>

datatype error = Error string

text \<open>
  \<open>Process\<close> is a pointer in the source, dereferenced without a check; the record holds
  the process it points to.
\<close>

record ProcessEstimate =
  Process :: Process
  Tasks :: "Task list"
  PE_BaseHours :: real
  PE_TotalHours :: real

text \<open>\<open>COCOMOEstimate\<close> is a pointer that the source tests against \<^verbatim>\<open>nil\<close>.\<close>

record Estimate =
  Est_ID :: string
  ProjectID :: string
  ProjectName :: string
  ProcessEstimates :: "ProcessEstimate list"
  GlobalFactors :: "Factor list"
  COCOMOEstimate :: "COCOMOEstimate option"
  TotalHours :: real
  Status :: string
  CreatedBy :: string
  Notes :: string

definition CalculationMethodActivity :: string where
  "CalculationMethodActivity = ''activity_based''"

definition CalculationMethodCOCOMO :: string where
  "CalculationMethodCOCOMO = ''cocomo_based''"

record CalculationResult =
  Method :: string
  CR_TotalHours :: real
  PersonMonths :: real
  CR_TeamSize :: float64
  DurationMonths :: real
  Confidence :: real

text \<open>
  \<^verbatim>\<open>ProcessRepository\<close> is an interface with no implementation in the repository; the
  calculation calls \<^verbatim>\<open>FindByID\<close> only, and is given the function that answers it.
\<close>

type_synonym ProcessRepository = "string \<Rightarrow> error + Process"

text \<open>
  The search for the task's activity: \<^verbatim>\<open>var activity Activity\<close> is the zero value, and
  the loop overwrites it with the first activity of the process that has the id, if any.
\<close>

definition zeroActivity :: Activity where
  "zeroActivity =
     \<lparr>Act_ID = [], Act_Name = [], Act_Description = [], BaseHours = 0, Deliverables = []\<rparr>"

fun findActivity :: "string \<Rightarrow> Activity list \<Rightarrow> Activity" where
  "findActivity aid [] = zeroActivity"
| "findActivity aid (a # as) = (if Act_ID a = aid then a else findActivity aid as)"

fun applyFactors :: "real \<Rightarrow> Factor list \<Rightarrow> real" where
  "applyFactors hours [] = hours"
| "applyFactors hours (f # fs) = applyFactors (Apply f hours) fs"

text \<open>The loop over the tasks of one process estimate, accumulating \<open>processTotal\<close>.\<close>

fun sumTasks :: "Process \<Rightarrow> real \<Rightarrow> Task list \<Rightarrow> real" where
  "sumTasks process processTotal [] = processTotal"
| "sumTasks process processTotal (task # tasks) =
     (let activity = findActivity (ActivityID task) (Activities process);
          baseHours = applyFactors (CalculateBaseHours task activity) (CustomFactors task)
      in sumTasks process (processTotal + baseHours) tasks)"

text \<open>
  The loop over the process estimates. It writes \<open>BaseHours\<close> and \<open>TotalHours\<close> of entry
  \<open>i\<close> as it goes, so on an error the entries before the failing one stay updated:
  \<open>done\<close> are the entries already written, and the result is the list as the loop leaves
  it, with the error or the project total.
\<close>

fun processLoop ::
  "ProcessRepository \<Rightarrow> Factor list \<Rightarrow> real \<Rightarrow> ProcessEstimate list \<Rightarrow> ProcessEstimate list
     \<Rightarrow> ProcessEstimate list \<times> (error + real)" where
  "processLoop processRepo globalFactors projectTotal done [] = (done, Inr projectTotal)"
| "processLoop processRepo globalFactors projectTotal done (pe # pes) =
     (case processRepo (Proc_ID (Process pe)) of
        Inl err \<Rightarrow> (done @ pe # pes, Inl err)
      | Inr process \<Rightarrow>
          (let baseTotal = sumTasks process 0 (Tasks pe);
               processTotal = applyFactors baseTotal globalFactors
           in processLoop processRepo globalFactors (projectTotal + processTotal)
                (done @ [pe\<lparr>PE_BaseHours := baseTotal, PE_TotalHours := processTotal\<rparr>]) pes))"

definition calculateActivityBased ::
  "ProcessRepository \<Rightarrow> Estimate \<Rightarrow> Estimate \<times> (error + CalculationResult)" where
  "calculateActivityBased processRepo e =
     (case processLoop processRepo (GlobalFactors e) 0 [] (ProcessEstimates e) of
        (pes, Inl err) \<Rightarrow> (e\<lparr>ProcessEstimates := pes\<rparr>, Inl err)
      | (pes, Inr projectTotal) \<Rightarrow>
          (e\<lparr>ProcessEstimates := pes\<rparr>,
           Inr \<lparr>Method = CalculationMethodActivity,
                CR_TotalHours = projectTotal,
                PersonMonths = projectTotal / 160.0,
                CR_TeamSize = Fin 5.0,
                DurationMonths = (projectTotal / 160.0) / 5.0,
                Confidence = 0.8\<rparr>))"

text \<open>
  \<^verbatim>\<open>calculateCOCOMOBased\<close> is called only when the pointer is not \<^verbatim>\<open>nil\<close>; it is
  modelled on the estimate pointed to, which it recalculates in place.
\<close>

definition calculateCOCOMOBased :: "COCOMOEstimate \<Rightarrow> COCOMOEstimate \<times> CalculationResult" where
  "calculateCOCOMOBased c =
     (let c' = CalculateEffort c
      in (c', \<lparr>Method = CalculationMethodCOCOMO,
                CR_TotalHours = EffortPM c' * 160.0,
                PersonMonths = EffortPM c',
                CR_TeamSize = TeamSize c',
                DurationMonths = DurationTM c',
                Confidence = 0.85\<rparr>))"

definition reconcileEstimates ::
  "Estimate \<Rightarrow> CalculationResult \<Rightarrow> CalculationResult option \<Rightarrow> Estimate" where
  "reconcileEstimates e activityResult cocomoResult =
     (case cocomoResult of
        None \<Rightarrow> e\<lparr>TotalHours := CR_TotalHours activityResult\<rparr>
      | Some cocomo \<Rightarrow>
          (let totalConfidence = Confidence activityResult + Confidence cocomo;
               activityWeight = Confidence activityResult / totalConfidence;
               cocomoWeight = Confidence cocomo / totalConfidence
           in e\<lparr>TotalHours := (CR_TotalHours activityResult * activityWeight) +
                                (CR_TotalHours cocomo * cocomoWeight)\<rparr>))"

text \<open>The estimate as the call leaves it, and the error returned (\<open>None\<close> for \<^verbatim>\<open>nil\<close>).\<close>

definition CalculateTotalHours :: "ProcessRepository \<Rightarrow> Estimate \<Rightarrow> Estimate \<times> error option" where
  "CalculateTotalHours processRepo e =
     (case calculateActivityBased processRepo e of
        (e1, Inl err) \<Rightarrow> (e1, Some err)
      | (e1, Inr activityResult) \<Rightarrow>
          (case COCOMOEstimate e1 of
             None \<Rightarrow> (reconcileEstimates e1 activityResult None, None)
           | Some c \<Rightarrow>
               (case calculateCOCOMOBased c of
                  (c', cocomoResult) \<Rightarrow>
                    (reconcileEstimates (e1\<lparr>COCOMOEstimate := Some c'\<rparr>) activityResult
                       (Some cocomoResult), None))))"

section \<open>The COCOMO use case (package usecase)\<close>

text \<open>
  \<^verbatim>\<open>COCOMORepository\<close> is an interface with no implementation in the repository. The
  use case is given the answers of the methods it calls: the four lookups, and the error
  (if any) that \<^verbatim>\<open>SaveEstimate\<close> returns for an estimate.
\<close>

record COCOMORepository =
  FindModelByID :: "string \<Rightarrow> error + COCOMOModel"
  FindScaleFactorByID :: "string \<Rightarrow> error + ScaleFactor"
  FindCostDriverByID :: "string \<Rightarrow> error + CostDriver"
  FindEstimateByID :: "string \<Rightarrow> error + COCOMOEstimate"
  SaveEstimate :: "COCOMOEstimate \<Rightarrow> error option"

text \<open>
  A \<^verbatim>\<open>map[string]float64\<close> of an input is the list of its entries in the order the
  \<^verbatim>\<open>range\<close> statement visits them, which Go leaves unspecified: a property of the use
  case is stated for every such list.
\<close>

record CreateEstimateInput =
  In_ModelID :: string
  In_ProjectSize :: real
  In_ScaleFactors :: "(string \<times> real) list"
  In_CostDrivers :: "(string \<times> real) list"

fun processScaleFactors ::
  "COCOMORepository \<Rightarrow> ScaleFactor list \<Rightarrow> (string \<times> real) list \<Rightarrow> error + ScaleFactor list" where
  "processScaleFactors repo scaleFactors [] = Inr scaleFactors"
| "processScaleFactors repo scaleFactors ((key, rating) # rest) =
     (case FindScaleFactorByID repo key of
        Inl err \<Rightarrow> Inl err
      | Inr sf \<Rightarrow> processScaleFactors repo (scaleFactors @ [sf\<lparr>SF_Rating := rating\<rparr>]) rest)"

fun processCostDrivers ::
  "COCOMORepository \<Rightarrow> CostDriver list \<Rightarrow> (string \<times> real) list \<Rightarrow> error + CostDriver list" where
  "processCostDrivers repo costDrivers [] = Inr costDrivers"
| "processCostDrivers repo costDrivers ((key, rating) # rest) =
     (case FindCostDriverByID repo key of
        Inl err \<Rightarrow> Inl err
      | Inr cd \<Rightarrow> processCostDrivers repo (costDrivers @ [cd\<lparr>CD_Rating := rating\<rparr>]) rest)"

text \<open>
  The result of a use case is what it returns together with the estimates it passed to
  \<^verbatim>\<open>SaveEstimate\<close>, in order.
\<close>

definition CreateEstimate ::
  "COCOMORepository \<Rightarrow> CreateEstimateInput \<Rightarrow> (error + COCOMOEstimate) \<times> COCOMOEstimate list" where
  "CreateEstimate repo input =
     (if In_ProjectSize input \<le> 0 then
        (Inl (Error ''project size must be greater than 0''), [])
      else case FindModelByID repo (In_ModelID input) of
        Inl err \<Rightarrow> (Inl err, [])
      | Inr model \<Rightarrow>
      (case processScaleFactors repo [] (In_ScaleFactors input) of
        Inl err \<Rightarrow> (Inl err, [])
      | Inr scaleFactors \<Rightarrow>
      (case processCostDrivers repo [] (In_CostDrivers input) of
        Inl err \<Rightarrow> (Inl err, [])
      | Inr costDrivers \<Rightarrow>
          (let estimate = CalculateEffort
                 \<lparr>CE_ID = [], ProjectSize = In_ProjectSize input, Model = model,
                  ScaleFactors = scaleFactors, CostDrivers = costDrivers,
                  ExponentB = 0, EffortPM = 0, DurationTM = 0, TeamSize = Fin 0\<rparr>
           in case SaveEstimate repo estimate of
                Some err \<Rightarrow> (Inl err, [estimate])
              | None \<Rightarrow> (Inr estimate, [estimate])))))"







section \<open>Example inputs\<close>

text \<open>
  Concrete inputs on which the properties below are evaluated: the Early Design model as
  \<^verbatim>\<open>InitializeDefaultModel\<close> writes it, estimates over it, a process with one activity,
  and repositories that know these entries and report any other id as not found.
\<close>

definition earlyDesign :: COCOMOModel where
  "earlyDesign =
     \<lparr>Model_ID = [], Model_Name = ''Early Design'',
      Model_Description = ''COCOMO II Early Design model for early project estimation'',
      Model_A = 2.94, Model_B = 0.91\<rparr>"

definition estimate50 :: COCOMOEstimate where
  "estimate50 =
     \<lparr>CE_ID = [], ProjectSize = 50, Model = earlyDesign, ScaleFactors = [], CostDrivers = [],
      ExponentB = 0, EffortPM = 0, DurationTM = 0, TeamSize = Fin 0\<rparr>"

definition precedentedness :: ScaleFactor where
  "precedentedness =
     \<lparr>SF_ID = ''prec'', SF_Type = ''precedentedness'', SF_Name = ''PREC'', SF_Description = [],
      SF_Rating = 3.0, SF_Weight = 4.05\<rparr>"



definition hearing :: Activity where
  "hearing =
     \<lparr>Act_ID = ''a1'', Act_Name = ''stakeholder hearing'', Act_Description = [],
      BaseHours = 16, Deliverables = []\<rparr>"

definition requirementDefinition :: Process where
  "requirementDefinition =
     \<lparr>Proc_ID = ''p1'', Category = ''requirement_definition'', Proc_Name = ''requirements'',
      Proc_Description = [], Activities = [hearing], Order = 1\<rparr>"

definition exampleProcessRepo :: ProcessRepository where
  "exampleProcessRepo pid =
     (if pid = ''p1'' then Inr requirementDefinition else Inl (Error ''process not found''))"

definition hearingTask :: Task where
  "hearingTask =
     \<lparr>Task_ID = ''t1'', ProcessID = ''p1'', ActivityID = ''a1'', Task_Name = ''hearing'',
      Task_Description = [], Complexity = 3, Scale = 1, Dependencies = [], CustomFactors = []\<rparr>"

definition danglingTask :: Task where
  "danglingTask =
     \<lparr>Task_ID = ''t2'', ProcessID = ''p1'', ActivityID = ''missing'', Task_Name = ''dangling'',
      Task_Description = [], Complexity = 3, Scale = 1, Dependencies = [], CustomFactors = []\<rparr>"

definition projectEstimate :: "Task list \<Rightarrow> COCOMOEstimate option \<Rightarrow> Estimate" where
  "projectEstimate tasks cocomo =
     \<lparr>Est_ID = ''est1'', ProjectID = ''proj1'', ProjectName = ''example'',
      ProcessEstimates =
        [\<lparr>Process = requirementDefinition, Tasks = tasks, PE_BaseHours = 0, PE_TotalHours = 0\<rparr>],
      GlobalFactors = [], COCOMOEstimate = cocomo, TotalHours = 0,
      Status = ''draft'', CreatedBy = [], Notes = []\<rparr>"

definition reliability :: CostDriver where
  "reliability =
     \<lparr>CD_ID = ''rely'', CD_Type = ''required_reliability'', CD_Name = ''RELY'',
      CD_Description = [], CD_Rating = 0, CD_Value = 1.0\<rparr>"

definition storedEstimate :: COCOMOEstimate where
  "storedEstimate =
     \<lparr>CE_ID = ''e1'', ProjectSize = 50, Model = earlyDesign, ScaleFactors = [precedentedness],
      CostDrivers = [reliability],
      ExponentB = 0, EffortPM = 0, DurationTM = 0, TeamSize = Fin 0\<rparr>"

definition exampleRepo :: COCOMORepository where
  "exampleRepo =
     \<lparr>FindModelByID =
        (\<lambda>key. if key = ''early'' then Inr earlyDesign else Inl (Error ''model not found'')),
      FindScaleFactorByID =
        (\<lambda>key. if key = ''prec'' then Inr precedentedness
              else Inl (Error ''scale factor not found'')),
      FindCostDriverByID =
        (\<lambda>key. if key = ''rely'' then Inr reliability
              else Inl (Error ''cost driver not found'')),
      FindEstimateByID =
        (\<lambda>key. if key = ''e1'' then Inr storedEstimate else Inl (Error ''estimate not found'')),
      SaveEstimate = (\<lambda>estimate. None)\<rparr>"


definition createInput ::
  "real \<Rightarrow> string \<Rightarrow> (string \<times> real) list \<Rightarrow> (string \<times> real) list \<Rightarrow> CreateEstimateInput" where
  "createInput projectSize modelID scaleFactors costDrivers =
     \<lparr>In_ModelID = modelID, In_ProjectSize = projectSize, In_ScaleFactors = scaleFactors,
      In_CostDrivers = costDrivers\<rparr>"

definition riskyEstimate :: COCOMOEstimate where
  "riskyEstimate =
     \<lparr>CE_ID = ''e2'', ProjectSize = 120, Model = earlyDesign,
      ScaleFactors = [precedentedness\<lparr>SF_Rating := 5\<rparr>, precedentedness\<lparr>SF_Rating := 4.5\<rparr>,
                      precedentedness\<lparr>SF_Rating := 4\<rparr>],
      CostDrivers = [reliability\<lparr>CD_Value := 1.4\<rparr>, reliability\<lparr>CD_Value := 1.3\<rparr>],
      ExponentB = 0, EffortPM = 20, DurationTM = 5, TeamSize = Fin 4\<rparr>"

section \<open>Notions used in the statements\<close>


text \<open>The scale factors and the cost drivers that qualify as high risk.\<close>

definition highScaleFactors :: "COCOMOEstimate \<Rightarrow> ScaleFactor list" where
  "highScaleFactors e = filter (\<lambda>sf. SF_Rating sf > 4.0) (ScaleFactors e)"

definition highCostDrivers :: "COCOMOEstimate \<Rightarrow> CostDriver list" where
  "highCostDrivers e = filter (\<lambda>cd. CD_Value cd > 1.3) (CostDrivers e)"

section \<open>Properties\<close>

subsection \<open>pow\<close>

lemma pow_loop_power: "pow_loop base n i r = r * base ^ nat (n - i)"
proof (induction base n i r rule: pow_loop.induct)
  case (1 base n i result)
  show ?case
  proof (cases "i < n")
    case True
    then have "nat (n - i) = Suc (nat (n - (i + 1)))" by simp
    with True "1" show ?thesis
      by (simp add: pow_loop.simps [of base n i result])
  next
    case False
    then show ?thesis by (simp add: pow_loop.simps [of base n i result])
  qed
qed

lemma pow_power: "pow base expo = base ^ nat (go_int expo)"
  by (simp add: pow_def pow_loop_power)



lemma go_int_out_of_range: "2 ^ 63 \<le> x \<Longrightarrow> go_int x = - (2 ^ 63)"
proof -
  assume x: "2 ^ 63 \<le> x"
  then have "(2::int) ^ 63 \<le> \<lfloor>x\<rfloor>" by (simp add: le_floor_iff)
  moreover have "0 \<le> x" using x by (smt (verit) zero_le_power)
  ultimately show ?thesis by (simp add: go_int_def Let_def)
qed


text \<open>
  The claim as stated, for every exponent \<open>exp \<ge> 0\<close>, fails from \<open>2^63\<close> on: for the base
  0 and the exponent \<open>10^19\<close> the result is 1, and the integer power is 0.
\<close>

theorem pow_out_of_range_counterexample:
  "(0::real) \<le> 10000000000000000000 \<and>
   pow 0 10000000000000000000 = 1 \<and>
   (0::real) ^ nat \<lfloor>10000000000000000000::real\<rfloor> = 0"
proof -
  have "(2::real) ^ 63 \<le> 10000000000000000000" by simp
  then have "pow 0 10000000000000000000 = 1"
    by (simp only: pow_power go_int_out_of_range) simp
  then show ?thesis by simp
qed


subsection \<open>CalculateEffort\<close>

lemma sumScaleFactors_sum:
  "sumScaleFactors b sfs = b + (\<Sum>sf\<leftarrow>sfs. SF_Weight sf * SF_Rating sf)"
  by (induction sfs arbitrary: b) simp_all

lemma effortMultiplier_prod:
  "effortMultiplier em cds = em * (\<Prod>cd\<leftarrow>cds. CD_Value cd)"
  by (induction cds arbitrary: em) simp_all

lemma CalculateEffort_ExponentB:
  "ExponentB (CalculateEffort e) =
     Model_B (Model e) + (\<Sum>sf\<leftarrow>ScaleFactors e. SF_Weight sf * SF_Rating sf)"
  by (simp add: CalculateEffort_def Let_def sumScaleFactors_sum)

text \<open>
  What \<^verbatim>\<open>CalculateEffort\<close> computes: the exponent is the model's \<open>B\<close> plus the sum of
  weight times rating, and the effort is \<open>A\<close> times the project size to the integer part
  of that exponent, times the product of the cost driver values.
\<close>

lemma CalculateEffort_EffortPM:
  "EffortPM (CalculateEffort e) =
     Model_A (Model e) * ProjectSize e ^ nat (go_int (ExponentB (CalculateEffort e))) *
       (\<Prod>cd\<leftarrow>CostDrivers e. CD_Value cd)"
  by (simp add: CalculateEffort_def Let_def effortMultiplier_prod pow_power)



lemma CalculateEffort_inputs:
  "ProjectSize (CalculateEffort e) = ProjectSize e"
  "Model (CalculateEffort e) = Model e"
  "ScaleFactors (CalculateEffort e) = ScaleFactors e"
  "CostDrivers (CalculateEffort e) = CostDrivers e"
  "CE_ID (CalculateEffort e) = CE_ID e"
  by (simp_all add: CalculateEffort_def Let_def)

lemma CalculateEffort_idem: "CalculateEffort (CalculateEffort e) = CalculateEffort e"
  by (simp add: CalculateEffort_def Let_def)

lemma estimate50_ExponentB: "ExponentB (CalculateEffort estimate50) = 0.91"
  by (simp add: CalculateEffort_ExponentB estimate50_def earlyDesign_def)

lemma estimate50_EffortPM: "EffortPM (CalculateEffort estimate50) = 2.94"
  by (simp add: CalculateEffort_EffortPM estimate50_ExponentB go_int_def)
     (simp add: estimate50_def earlyDesign_def)


text \<open>
  Claim C1. For a project size above 0 the effort is to be
  \<open>A * projectSize powr exponentB * \<Prod> value\<close>, with the real power of the fractional
  exponent \<open>exponentB = B + \<Sum> weight * rating\<close>. The exponent is computed as stated, but
  the effort is not: for the Early Design model (\<open>A = 2.94\<close>, \<open>B = 0.91\<close>), a size of 50
  and no factors, the exponent is 0.91, the loop of \<open>pow\<close> runs \<open>int(0.91) = 0\<close> times and
  the effort is \<open>2.94\<close>, where the stated formula gives more than 20.
\<close>

theorem CalculateEffort_integer_power_at_50:
  "ExponentB (CalculateEffort estimate50) = 0.91 \<and>
   EffortPM (CalculateEffort estimate50) = 2.94 \<and>
   20 < Model_A (Model estimate50) *
          (ProjectSize estimate50 powr ExponentB (CalculateEffort estimate50)) * 1"
proof -
  have "(7::real) ^ 2 < 50" by simp
  then have "(7::real) < sqrt 50" by (simp add: real_less_rsqrt)
  also have "sqrt 50 = 50 powr (1/2)" by (simp add: powr_half_sqrt)
  also have "\<dots> \<le> 50 powr 0.91" by (rule powr_mono) simp_all
  finally have "7 < (50::real) powr 0.91" .
  then have "20 < 2.94 * ((50::real) powr 0.91) * 1" by simp
  then show ?thesis
    by (simp add: estimate50_ExponentB estimate50_EffortPM)
       (simp add: estimate50_def earlyDesign_def)
qed

subsection \<open>The team size\<close>















subsection \<open>CalculateBaseHours\<close>

text \<open>
  Claim C5. For every task and activity, \<^verbatim>\<open>CalculateBaseHours\<close> is the activity's base
  hours times the task's scale times \<open>0.8 + 0.2 * complexity\<close>; complexity 1 gives the
  multiplier 1.0, complexity 3 gives 1.4 and complexity 5 gives 1.8.
\<close>

theorem CalculateBaseHours_formula:
  "CalculateBaseHours t activity =
     BaseHours activity * Scale t * (0.8 + 0.2 * real_of_int (Complexity t)) \<and>
   (Complexity t = 1 \<longrightarrow> CalculateBaseHours t activity = BaseHours activity * Scale t * 1.0) \<and>
   (Complexity t = 3 \<longrightarrow> CalculateBaseHours t activity = BaseHours activity * Scale t * 1.4) \<and>
   (Complexity t = 5 \<longrightarrow> CalculateBaseHours t activity = BaseHours activity * Scale t * 1.8)"
  by (simp add: CalculateBaseHours_def Let_def)

text \<open>An activity of 16 base hours at scale 1: 22.4, 16 and 28.8 hours.\<close>

theorem CalculateBaseHours_formula_witness:
  "Complexity hearingTask = 3 \<and> CalculateBaseHours hearingTask hearing = 22.4 \<and>
   CalculateBaseHours (hearingTask\<lparr>Complexity := 1\<rparr>) hearing = 16 \<and>
   CalculateBaseHours (hearingTask\<lparr>Complexity := 5\<rparr>) hearing = 28.8"
  using CalculateBaseHours_formula [of hearingTask hearing]
    CalculateBaseHours_formula [of "hearingTask\<lparr>Complexity := 1\<rparr>" hearing]
    CalculateBaseHours_formula [of "hearingTask\<lparr>Complexity := 5\<rparr>" hearing]
  by (simp add: hearingTask_def hearing_def)

subsection \<open>GenerateDetailedResult\<close>

lemma countHighScaleFactors_filter:
  "countHighScaleFactors n sfs = n + int (length (filter (\<lambda>sf. SF_Rating sf > 4.0) sfs))"
  by (induction sfs arbitrary: n) simp_all

lemma countHighCostDrivers_filter:
  "countHighCostDrivers n cds = n + int (length (filter (\<lambda>cd. CD_Value cd > 1.3) cds))"
  by (induction cds arbitrary: n) simp_all

lemma scaleFactorRisks_filter:
  "scaleFactorRisks risks sfs =
     risks @ map scaleFactorRisk (filter (\<lambda>sf. SF_Rating sf > 4.0) sfs)"
  by (induction sfs arbitrary: risks) simp_all

lemma costDriverRisks_filter:
  "costDriverRisks risks cds =
     risks @ map costDriverRisk (filter (\<lambda>cd. CD_Value cd > 1.3) cds)"
  by (induction cds arbitrary: risks) simp_all

text \<open>
  Claim C8. \<^verbatim>\<open>GenerateDetailedResult\<close> counts the scale factors rated above 4.0 and the
  cost drivers of value above 1.3; the risk level is High for a count of 3 or more, Medium
  for 1 or more, and Low otherwise. The risk factors are one High factor per qualifying
  scale factor (category Process), then one per qualifying cost driver (category
  Technical), then one Medium large-project factor exactly when the project size is
  above 100.
\<close>

theorem risk_assessment:
  "RiskLevel (GenerateDetailedResult e hourlyRate) =
     (if length (highScaleFactors e) + length (highCostDrivers e) \<ge> 3 then ''High''
      else if length (highScaleFactors e) + length (highCostDrivers e) \<ge> 1 then ''Medium''
      else ''Low'') \<and>
   RiskFactors (GenerateDetailedResult e hourlyRate) =
     map scaleFactorRisk (highScaleFactors e) @ map costDriverRisk (highCostDrivers e) @
     (if ProjectSize e > 100 then [largeProjectRisk] else []) \<and>
   RF_Category (scaleFactorRisk sf) = ''Process'' \<and> RF_Level (scaleFactorRisk sf) = ''High'' \<and>
   RF_Name (scaleFactorRisk sf) = SF_Name sf \<and>
   RF_Category (costDriverRisk cd) = ''Technical'' \<and> RF_Level (costDriverRisk cd) = ''High'' \<and>
   RF_Name (costDriverRisk cd) = CD_Name cd \<and>
   RF_Level largeProjectRisk = ''Medium''"
proof -
  have "RiskLevel (GenerateDetailedResult e hourlyRate) = assessRiskLevel e"
    by (simp add: GenerateDetailedResult_def)
  moreover have "assessRiskLevel e =
     (if length (highScaleFactors e) + length (highCostDrivers e) \<ge> 3 then ''High''
      else if length (highScaleFactors e) + length (highCostDrivers e) \<ge> 1 then ''Medium''
      else ''Low'')"
    unfolding assessRiskLevel_def Let_def countHighCostDrivers_filter countHighScaleFactors_filter
      highScaleFactors_def highCostDrivers_def
    by simp
  moreover have "RiskFactors (GenerateDetailedResult e hourlyRate) = identifyRiskFactors e"
    by (simp add: GenerateDetailedResult_def)
  moreover have "identifyRiskFactors e =
     map scaleFactorRisk (highScaleFactors e) @ map costDriverRisk (highCostDrivers e) @
     (if ProjectSize e > 100 then [largeProjectRisk] else [])"
    by (simp add: identifyRiskFactors_def Let_def costDriverRisks_filter scaleFactorRisks_filter
          highScaleFactors_def highCostDrivers_def)
  ultimately show ?thesis
    by (simp add: scaleFactorRisk_def costDriverRisk_def largeProjectRisk_def)
qed

text \<open>
  Three qualifying factors at size 120 (ratings 5 and 4.5 and value 1.4; rating 4.0 and
  value 1.3 do not qualify), one at size 100, and none.
\<close>

theorem risk_assessment_witness:
  "RiskLevel (GenerateDetailedResult riskyEstimate 0) = ''High'' \<and>
   RiskFactors (GenerateDetailedResult riskyEstimate 0) =
     [scaleFactorRisk (precedentedness\<lparr>SF_Rating := 5\<rparr>),
      scaleFactorRisk (precedentedness\<lparr>SF_Rating := 4.5\<rparr>),
      costDriverRisk (reliability\<lparr>CD_Value := 1.4\<rparr>), largeProjectRisk] \<and>
   RiskLevel (GenerateDetailedResult
      (riskyEstimate\<lparr>ProjectSize := 100, ScaleFactors := [precedentedness\<lparr>SF_Rating := 5\<rparr>],
          CostDrivers := []\<rparr>) 0) = ''Medium'' \<and>
   RiskFactors (GenerateDetailedResult
      (riskyEstimate\<lparr>ProjectSize := 100, ScaleFactors := [precedentedness\<lparr>SF_Rating := 5\<rparr>],
          CostDrivers := []\<rparr>) 0) = [scaleFactorRisk (precedentedness\<lparr>SF_Rating := 5\<rparr>)] \<and>
   RiskLevel (GenerateDetailedResult estimate50 0) = ''Low'' \<and>
   RiskFactors (GenerateDetailedResult estimate50 0) = []"
  using risk_assessment [of riskyEstimate 0]
    risk_assessment [of "riskyEstimate\<lparr>ProjectSize := 100,
          ScaleFactors := [precedentedness\<lparr>SF_Rating := 5\<rparr>], CostDrivers := []\<rparr>" 0]
    risk_assessment [of estimate50 0]
  by (simp add: highScaleFactors_def highCostDrivers_def riskyEstimate_def estimate50_def)

text \<open>
  Claim C9. For every estimate and hourly rate, the effort range of the detailed result is
  0.8 and 1.2 times the effort, the duration range 0.85 and 1.15 times the duration, the
  team size range 0.7 and 1.3 times the team size; when the hourly rate is above 0 the
  total cost is effort times 160 times the rate, with the cost range 0.8 and 1.2 times
  that, and otherwise the cost estimate is left at zero. An effort of 20 at a rate of
  5000 costs 16,000,000, in the range from 12,800,000 to 19,200,000.
\<close>

theorem detailed_result_ranges:
  "Optimistic (EffortRange (GenerateDetailedResult e hourlyRate)) = 0.8 * EffortPM e \<and>
   Nominal (EffortRange (GenerateDetailedResult e hourlyRate)) = EffortPM e \<and>
   Pessimistic (EffortRange (GenerateDetailedResult e hourlyRate)) = 1.2 * EffortPM e \<and>
   Optimistic (DurationRange (GenerateDetailedResult e hourlyRate)) = 0.85 * DurationTM e \<and>
   Nominal (DurationRange (GenerateDetailedResult e hourlyRate)) = DurationTM e \<and>
   Pessimistic (DurationRange (GenerateDetailedResult e hourlyRate)) = 1.15 * DurationTM e \<and>
   TS_Minimum (DR_TeamSizeRange (GenerateDetailedResult e hourlyRate)) = fmul (TeamSize e) 0.7 \<and>
   TS_Average (DR_TeamSizeRange (GenerateDetailedResult e hourlyRate)) = TeamSize e \<and>
   TS_Maximum (DR_TeamSizeRange (GenerateDetailedResult e hourlyRate)) = fmul (TeamSize e) 1.3 \<and>
   (TeamSize e = Fin t \<longrightarrow>
      TS_Minimum (DR_TeamSizeRange (GenerateDetailedResult e hourlyRate)) = Fin (0.7 * t) \<and>
      TS_Maximum (DR_TeamSizeRange (GenerateDetailedResult e hourlyRate)) = Fin (1.3 * t)) \<and>
   (hourlyRate > 0 \<longrightarrow>
      HourlyRate (DR_CostEstimate (GenerateDetailedResult e hourlyRate)) = hourlyRate \<and>
      TotalCost (DR_CostEstimate (GenerateDetailedResult e hourlyRate)) =
        EffortPM e * 160 * hourlyRate \<and>
      Cost_Minimum (CostRange (DR_CostEstimate (GenerateDetailedResult e hourlyRate))) =
        0.8 * (EffortPM e * 160 * hourlyRate) \<and>
      Cost_Nominal (CostRange (DR_CostEstimate (GenerateDetailedResult e hourlyRate))) =
        EffortPM e * 160 * hourlyRate \<and>
      Cost_Maximum (CostRange (DR_CostEstimate (GenerateDetailedResult e hourlyRate))) =
        1.2 * (EffortPM e * 160 * hourlyRate)) \<and>
   (hourlyRate \<le> 0 \<longrightarrow>
      DR_CostEstimate (GenerateDetailedResult e hourlyRate) =
        \<lparr>HourlyRate = 0, TotalCost = 0,
         CostRange = \<lparr>Cost_Minimum = 0, Cost_Nominal = 0, Cost_Maximum = 0\<rparr>\<rparr>) \<and>
   (EffortPM e = 20 \<longrightarrow>
      TotalCost (DR_CostEstimate (GenerateDetailedResult e 5000)) = 16000000 \<and>
      Cost_Minimum (CostRange (DR_CostEstimate (GenerateDetailedResult e 5000))) = 12800000 \<and>
      Cost_Maximum (CostRange (DR_CostEstimate (GenerateDetailedResult e 5000))) = 19200000)"
  by (simp add: GenerateDetailedResult_def costEstimate_def Let_def)

text \<open>An estimate with effort 20, duration 5 and team size 4, at the rates 5000 and 0.\<close>

theorem detailed_result_ranges_witness:
  "EffortPM riskyEstimate = 20 \<and> TeamSize riskyEstimate = Fin 4 \<and>
   Optimistic (EffortRange (GenerateDetailedResult riskyEstimate 5000)) = 16 \<and>
   Pessimistic (EffortRange (GenerateDetailedResult riskyEstimate 5000)) = 24 \<and>
   Optimistic (DurationRange (GenerateDetailedResult riskyEstimate 5000)) = 4.25 \<and>
   Pessimistic (DurationRange (GenerateDetailedResult riskyEstimate 5000)) = 5.75 \<and>
   TS_Minimum (DR_TeamSizeRange (GenerateDetailedResult riskyEstimate 5000)) = Fin 2.8 \<and>
   TS_Maximum (DR_TeamSizeRange (GenerateDetailedResult riskyEstimate 5000)) = Fin 5.2 \<and>
   TotalCost (DR_CostEstimate (GenerateDetailedResult riskyEstimate 5000)) = 16000000 \<and>
   Cost_Minimum (CostRange (DR_CostEstimate (GenerateDetailedResult riskyEstimate 5000))) = 12800000 \<and>
   Cost_Maximum (CostRange (DR_CostEstimate (GenerateDetailedResult riskyEstimate 5000))) = 19200000 \<and>
   TotalCost (DR_CostEstimate (GenerateDetailedResult riskyEstimate 0)) = 0"
  using detailed_result_ranges [of riskyEstimate 5000 4]
    detailed_result_ranges [of riskyEstimate 0 4]
  by (simp add: riskyEstimate_def)

subsection \<open>The activity-based calculation\<close>

lemma processLoop_example:
  "processLoop exampleProcessRepo (GlobalFactors (projectEstimate tasks cocomo)) 0 []
     (ProcessEstimates (projectEstimate tasks cocomo)) =
   ([\<lparr>Process = requirementDefinition, Tasks = tasks,
      PE_BaseHours = sumTasks requirementDefinition 0 tasks,
      PE_TotalHours = sumTasks requirementDefinition 0 tasks\<rparr>],
    Inr (sumTasks requirementDefinition 0 tasks))"
  by (simp add: projectEstimate_def exampleProcessRepo_def Let_def requirementDefinition_def)

lemma calculateActivityBased_example:
  "calculateActivityBased exampleProcessRepo (projectEstimate tasks cocomo) =
     ((projectEstimate tasks cocomo)
        \<lparr>ProcessEstimates :=
           [\<lparr>Process = requirementDefinition, Tasks = tasks,
             PE_BaseHours = sumTasks requirementDefinition 0 tasks,
             PE_TotalHours = sumTasks requirementDefinition 0 tasks\<rparr>]\<rparr>,
      Inr \<lparr>Method = CalculationMethodActivity,
           CR_TotalHours = sumTasks requirementDefinition 0 tasks,
           PersonMonths = sumTasks requirementDefinition 0 tasks / 160,
           CR_TeamSize = Fin 5,
           DurationMonths = sumTasks requirementDefinition 0 tasks / 160 / 5,
           Confidence = 0.8\<rparr>)"
  unfolding calculateActivityBased_def processLoop_example by simp

lemma CalculateTotalHours_example_None:
  "snd (CalculateTotalHours exampleProcessRepo (projectEstimate tasks None)) = None \<and>
   TotalHours (fst (CalculateTotalHours exampleProcessRepo (projectEstimate tasks None))) =
     sumTasks requirementDefinition 0 tasks"
  unfolding CalculateTotalHours_def calculateActivityBased_example
  by (simp add: projectEstimate_def reconcileEstimates_def)

lemma sumTasks_two:
  "findActivity ''missing'' (Activities requirementDefinition) = zeroActivity \<and>
   sumTasks requirementDefinition 0 [hearingTask] = 22.4 \<and>
   sumTasks requirementDefinition 0 [hearingTask, danglingTask] = 22.4"
  by (simp add: requirementDefinition_def hearing_def hearingTask_def danglingTask_def Let_def
        CalculateBaseHours_def zeroActivity_def)

lemma processLoop_error_from_repo:
  "processLoop processRepo gfs tot done pes = (pes', Inl err) \<Longrightarrow>
     \<exists>pe \<in> set pes. processRepo (Proc_ID (Process pe)) = Inl err"
  by (induction pes arbitrary: tot "done") (auto simp: Let_def split: sum.splits)

text \<open>
  The only error of the activity-based calculation is the one a process lookup returned.
\<close>

lemma calculateActivityBased_error_from_repo:
  "snd (calculateActivityBased processRepo e) = Inl err \<Longrightarrow>
     \<exists>pe \<in> set (ProcessEstimates e). processRepo (Proc_ID (Process pe)) = Inl err"
  using processLoop_error_from_repo [of processRepo "GlobalFactors e" 0 "[]" "ProcessEstimates e"]
  by (auto simp: calculateActivityBased_def split: prod.splits sum.splits)

text \<open>
  Claim C2. A task whose activity id is not in the activity list of its process is to
  make the whole calculation fail with a not-found error. It does not: the search leaves
  the zero activity in place, the task counts for 0 hours, and the call returns no error.
  Here the process has the activity \<open>a1\<close> only, the second task names the activity
  \<open>missing\<close>, and the total is the 22.4 hours of the first task.
\<close>

theorem unresolved_activity_is_not_reported:
  "findActivity (ActivityID danglingTask) (Activities requirementDefinition) = zeroActivity \<and>
   snd (CalculateTotalHours exampleProcessRepo (projectEstimate [hearingTask, danglingTask] None)) = None \<and>
   TotalHours (fst (CalculateTotalHours exampleProcessRepo
                      (projectEstimate [hearingTask, danglingTask] None))) = 22.4"
  using sumTasks_two by (simp add: CalculateTotalHours_example_None) (simp add: danglingTask_def)

subsection \<open>Reconciliation\<close>






subsection \<open>CreateEstimate\<close>

lemma processScaleFactors_Inl:
  "processScaleFactors repo acc m = Inl err \<Longrightarrow>
     \<exists>key \<in> fst ` set m. FindScaleFactorByID repo key = Inl err"
  by (induction repo acc m rule: processScaleFactors.induct) (auto split: sum.splits)

lemma processScaleFactors_Inr:
  "processScaleFactors repo acc m = Inr sfs \<Longrightarrow>
     (\<forall>key \<in> fst ` set m. \<not> isl (FindScaleFactorByID repo key)) \<and>
     sfs = acc @ map (\<lambda>(key, rating). (projr (FindScaleFactorByID repo key))\<lparr>SF_Rating := rating\<rparr>) m"
  by (induction repo acc m arbitrary: sfs rule: processScaleFactors.induct)
     (auto split: sum.splits)

lemma processScaleFactors_fails:
  "\<exists>key \<in> fst ` set m. isl (FindScaleFactorByID repo key) \<Longrightarrow>
     \<exists>err. processScaleFactors repo acc m = Inl err"
  using processScaleFactors_Inr [of repo acc m]
  by (cases "processScaleFactors repo acc m") auto

lemma processCostDrivers_Inl:
  "processCostDrivers repo acc m = Inl err \<Longrightarrow>
     \<exists>key \<in> fst ` set m. FindCostDriverByID repo key = Inl err"
  by (induction repo acc m rule: processCostDrivers.induct) (auto split: sum.splits)

lemma processCostDrivers_Inr:
  "processCostDrivers repo acc m = Inr cds \<Longrightarrow>
     (\<forall>key \<in> fst ` set m. \<not> isl (FindCostDriverByID repo key)) \<and>
     cds = acc @ map (\<lambda>(key, rating). (projr (FindCostDriverByID repo key))\<lparr>CD_Rating := rating\<rparr>) m"
  by (induction repo acc m arbitrary: cds rule: processCostDrivers.induct)
     (auto split: sum.splits)

lemma processCostDrivers_fails:
  "\<exists>key \<in> fst ` set m. isl (FindCostDriverByID repo key) \<Longrightarrow>
     \<exists>err. processCostDrivers repo acc m = Inl err"
  using processCostDrivers_Inr [of repo acc m]
  by (cases "processCostDrivers repo acc m") auto

lemma CreateEstimate_scale_factor_fails:
  assumes "0 < In_ProjectSize input"
    and "FindModelByID repo (In_ModelID input) = Inr model"
    and "\<exists>key \<in> fst ` set (In_ScaleFactors input). isl (FindScaleFactorByID repo key)"
  shows "\<exists>key \<in> fst ` set (In_ScaleFactors input). \<exists>err.
           FindScaleFactorByID repo key = Inl err \<and> CreateEstimate repo input = (Inl err, [])"
proof -
  obtain err where e: "processScaleFactors repo [] (In_ScaleFactors input) = Inl err"
    using processScaleFactors_fails [OF assms(3)] by blast
  then have "CreateEstimate repo input = (Inl err, [])"
    using assms(1,2) by (simp add: CreateEstimate_def)
  with processScaleFactors_Inl [OF e] show ?thesis by blast
qed

lemma CreateEstimate_cost_driver_fails:
  assumes "0 < In_ProjectSize input"
    and "FindModelByID repo (In_ModelID input) = Inr model"
    and "\<forall>key \<in> fst ` set (In_ScaleFactors input). \<not> isl (FindScaleFactorByID repo key)"
    and "\<exists>key \<in> fst ` set (In_CostDrivers input). isl (FindCostDriverByID repo key)"
  shows "\<exists>key \<in> fst ` set (In_CostDrivers input). \<exists>err.
           FindCostDriverByID repo key = Inl err \<and> CreateEstimate repo input = (Inl err, [])"
proof -
  obtain sfs where s: "processScaleFactors repo [] (In_ScaleFactors input) = Inr sfs"
  proof (cases "processScaleFactors repo [] (In_ScaleFactors input)")
    case (Inl err)
    from processScaleFactors_Inl [OF this] assms(3) show ?thesis by auto
  next
    case (Inr sfs)
    then show ?thesis using that by blast
  qed
  obtain err where e: "processCostDrivers repo [] (In_CostDrivers input) = Inl err"
    using processCostDrivers_fails [OF assms(4)] by blast
  then have "CreateEstimate repo input = (Inl err, [])"
    using assms(1,2) s by (simp add: CreateEstimate_def)
  with processCostDrivers_Inl [OF e] show ?thesis by blast
qed

lemma CreateEstimate_success:
  assumes "CreateEstimate repo input = (Inr est, saved)"
  shows "saved = [est] \<and> CalculateEffort est = est \<and> 0 < In_ProjectSize input \<and>
     ProjectSize est = In_ProjectSize input \<and>
     FindModelByID repo (In_ModelID input) = Inr (Model est) \<and>
     (\<forall>key \<in> fst ` set (In_ScaleFactors input). \<not> isl (FindScaleFactorByID repo key)) \<and>
     (\<forall>key \<in> fst ` set (In_CostDrivers input). \<not> isl (FindCostDriverByID repo key)) \<and>
     ScaleFactors est =
       map (\<lambda>(key, rating). (projr (FindScaleFactorByID repo key))\<lparr>SF_Rating := rating\<rparr>)
         (In_ScaleFactors input) \<and>
     CostDrivers est =
       map (\<lambda>(key, rating). (projr (FindCostDriverByID repo key))\<lparr>CD_Rating := rating\<rparr>)
         (In_CostDrivers input)"
proof -
  from assms have pos: "0 < In_ProjectSize input"
    by (auto simp: CreateEstimate_def split: if_splits)
  from assms pos obtain model where m: "FindModelByID repo (In_ModelID input) = Inr model"
    by (cases "FindModelByID repo (In_ModelID input)") (auto simp: CreateEstimate_def)
  from assms pos m obtain sfs where s: "processScaleFactors repo [] (In_ScaleFactors input) = Inr sfs"
    by (cases "processScaleFactors repo [] (In_ScaleFactors input)") (auto simp: CreateEstimate_def)
  from assms pos m s obtain cds where c: "processCostDrivers repo [] (In_CostDrivers input) = Inr cds"
    by (cases "processCostDrivers repo [] (In_CostDrivers input)") (auto simp: CreateEstimate_def)
  define e0 where "e0 = \<lparr>CE_ID = [], ProjectSize = In_ProjectSize input, Model = model,
                  ScaleFactors = sfs, CostDrivers = cds,
                  ExponentB = 0, EffortPM = 0, DurationTM = 0, TeamSize = Fin 0\<rparr>"
  from assms pos m s c have r: "est = CalculateEffort e0 \<and> saved = [est]"
    by (auto simp: CreateEstimate_def Let_def e0_def split: option.splits)
  then have "ProjectSize est = In_ProjectSize input" "Model est = model"
    "ScaleFactors est = sfs" "CostDrivers est = cds"
    by (simp_all add: CalculateEffort_inputs e0_def)
  with r pos m processScaleFactors_Inr [OF s] processCostDrivers_Inr [OF c]
  show ?thesis by (simp add: CalculateEffort_idem)
qed

text \<open>
  Claim C6. \<^verbatim>\<open>CreateEstimate\<close> rejects a project size of 0 or less whatever the
  repository holds. With a positive size, a failed lookup of the model, of a scale factor
  or of a cost driver makes the call return the error of a failed lookup, and nothing is
  saved. An estimate is returned only when every lookup succeeded: it is the one estimate
  saved, it carries every factor of the input with its rating, and its derived fields are
  those \<^verbatim>\<open>CalculateEffort\<close> computes.
\<close>

theorem CreateEstimate_all_or_nothing:
  "(In_ProjectSize input \<le> 0 \<longrightarrow>
      CreateEstimate repo input = (Inl (Error ''project size must be greater than 0''), [])) \<and>
   (0 < In_ProjectSize input \<and> FindModelByID repo (In_ModelID input) = Inl err \<longrightarrow>
      CreateEstimate repo input = (Inl err, [])) \<and>
   (0 < In_ProjectSize input \<and> FindModelByID repo (In_ModelID input) = Inr model \<and>
    (\<exists>key \<in> fst ` set (In_ScaleFactors input). isl (FindScaleFactorByID repo key)) \<longrightarrow>
      (\<exists>key \<in> fst ` set (In_ScaleFactors input). \<exists>err'.
         FindScaleFactorByID repo key = Inl err' \<and> CreateEstimate repo input = (Inl err', []))) \<and>
   (0 < In_ProjectSize input \<and> FindModelByID repo (In_ModelID input) = Inr model \<and>
    (\<forall>key \<in> fst ` set (In_ScaleFactors input). \<not> isl (FindScaleFactorByID repo key)) \<and>
    (\<exists>key \<in> fst ` set (In_CostDrivers input). isl (FindCostDriverByID repo key)) \<longrightarrow>
      (\<exists>key \<in> fst ` set (In_CostDrivers input). \<exists>err'.
         FindCostDriverByID repo key = Inl err' \<and> CreateEstimate repo input = (Inl err', []))) \<and>
   (CreateEstimate repo input = (Inr est, saved) \<longrightarrow>
      saved = [est] \<and> CalculateEffort est = est \<and> 0 < In_ProjectSize input \<and>
      ProjectSize est = In_ProjectSize input \<and>
      FindModelByID repo (In_ModelID input) = Inr (Model est) \<and>
      (\<forall>key \<in> fst ` set (In_ScaleFactors input). \<not> isl (FindScaleFactorByID repo key)) \<and>
      (\<forall>key \<in> fst ` set (In_CostDrivers input). \<not> isl (FindCostDriverByID repo key)) \<and>
      ScaleFactors est =
        map (\<lambda>(key, rating). (projr (FindScaleFactorByID repo key))\<lparr>SF_Rating := rating\<rparr>)
          (In_ScaleFactors input) \<and>
      CostDrivers est =
        map (\<lambda>(key, rating). (projr (FindCostDriverByID repo key))\<lparr>CD_Rating := rating\<rparr>)
          (In_CostDrivers input))"
proof -
  have rejected: "In_ProjectSize input \<le> 0 \<longrightarrow>
      CreateEstimate repo input = (Inl (Error ''project size must be greater than 0''), [])"
    by (simp add: CreateEstimate_def)
  have no_model: "0 < In_ProjectSize input \<and> FindModelByID repo (In_ModelID input) = Inl err \<longrightarrow>
      CreateEstimate repo input = (Inl err, [])"
    by (simp add: CreateEstimate_def)
  have no_factor: "0 < In_ProjectSize input \<and> FindModelByID repo (In_ModelID input) = Inr model \<and>
    (\<exists>key \<in> fst ` set (In_ScaleFactors input). isl (FindScaleFactorByID repo key)) \<longrightarrow>
      (\<exists>key \<in> fst ` set (In_ScaleFactors input). \<exists>err'.
         FindScaleFactorByID repo key = Inl err' \<and> CreateEstimate repo input = (Inl err', []))"
    using CreateEstimate_scale_factor_fails [of input repo model] by blast
  have no_driver: "0 < In_ProjectSize input \<and> FindModelByID repo (In_ModelID input) = Inr model \<and>
    (\<forall>key \<in> fst ` set (In_ScaleFactors input). \<not> isl (FindScaleFactorByID repo key)) \<and>
    (\<exists>key \<in> fst ` set (In_CostDrivers input). isl (FindCostDriverByID repo key)) \<longrightarrow>
      (\<exists>key \<in> fst ` set (In_CostDrivers input). \<exists>err'.
         FindCostDriverByID repo key = Inl err' \<and> CreateEstimate repo input = (Inl err', []))"
    using CreateEstimate_cost_driver_fails [of input repo model] by blast
  show ?thesis
    by (intro conjI rejected no_model no_factor no_driver impI CreateEstimate_success)
qed

text \<open>
  A rejected size, an unknown model, an unknown scale factor after a known one, an unknown
  cost driver after a known one, and a successful call.
\<close>

theorem CreateEstimate_all_or_nothing_witness:
  "CreateEstimate exampleRepo (createInput 0 ''early'' [(''prec'', 3)] [(''rely'', 2)]) =
     (Inl (Error ''project size must be greater than 0''), []) \<and>
   CreateEstimate exampleRepo (createInput 50 ''late'' [(''prec'', 3)] [(''rely'', 2)]) =
     (Inl (Error ''model not found''), []) \<and>
   CreateEstimate exampleRepo (createInput 50 ''early'' [(''prec'', 3), (''unknown'', 1)] [(''rely'', 2)]) =
     (Inl (Error ''scale factor not found''), []) \<and>
   CreateEstimate exampleRepo (createInput 50 ''early'' [(''prec'', 3)] [(''rely'', 2), (''unknown'', 1)]) =
     (Inl (Error ''cost driver not found''), []) \<and>
   (\<exists>est. CreateEstimate exampleRepo (createInput 50 ''early'' [(''prec'', 3)] [(''rely'', 2)]) =
            (Inr est, [est]) \<and>
          ScaleFactors est = [precedentedness\<lparr>SF_Rating := 3\<rparr>] \<and>
          CostDrivers est = [reliability\<lparr>CD_Rating := 2\<rparr>])"
proof -
  have repo:
    "FindModelByID exampleRepo ''early'' = Inr earlyDesign"
    "FindModelByID exampleRepo ''late'' = Inl (Error ''model not found'')"
    "FindScaleFactorByID exampleRepo ''prec'' = Inr precedentedness"
    "FindScaleFactorByID exampleRepo ''unknown'' = Inl (Error ''scale factor not found'')"
    "FindCostDriverByID exampleRepo ''rely'' = Inr reliability"
    "FindCostDriverByID exampleRepo ''unknown'' = Inl (Error ''cost driver not found'')"
    "SaveEstimate exampleRepo = (\<lambda>estimate. None)"
    by (simp_all add: exampleRepo_def)
  have ok: "\<exists>est. CreateEstimate exampleRepo (createInput 50 ''early'' [(''prec'', 3)] [(''rely'', 2)]) =
            (Inr est, [est])"
    by (simp add: CreateEstimate_def createInput_def repo Let_def)
  then obtain est where est:
    "CreateEstimate exampleRepo (createInput 50 ''early'' [(''prec'', 3)] [(''rely'', 2)]) = (Inr est, [est])"
    by blast
  show ?thesis
    using CreateEstimate_all_or_nothing
            [of "createInput 0 ''early'' [(''prec'', 3)] [(''rely'', 2)]" exampleRepo]
      CreateEstimate_all_or_nothing
            [of "createInput 50 ''late'' [(''prec'', 3)] [(''rely'', 2)]" exampleRepo
                "Error ''model not found''"]
      CreateEstimate_all_or_nothing
            [of "createInput 50 ''early'' [(''prec'', 3), (''unknown'', 1)] [(''rely'', 2)]" exampleRepo
                _ earlyDesign]
      CreateEstimate_all_or_nothing
            [of "createInput 50 ''early'' [(''prec'', 3)] [(''rely'', 2), (''unknown'', 1)]" exampleRepo
                _ earlyDesign]
      CreateEstimate_all_or_nothing
            [of "createInput 50 ''early'' [(''prec'', 3)] [(''rely'', 2)]" exampleRepo
                _ _ est "[est]"]
      est
    by (simp add: createInput_def repo)
qed

subsection \<open>UpdateRatings\<close>

















end
